theory Spec2Isabelle
  imports Main
begin

section \<open>Go library functions used by the sources\<close>

text \<open>
  Go strings are byte sequences; they are modelled as \<open>string\<close> (a list of \<open>char\<close>).
  \<open>strings.Join\<close>: the empty list gives the empty string, one element gives that
  element, otherwise the elements are concatenated with the separator in between.
\<close>

fun Join :: "string list \<Rightarrow> string \<Rightarrow> string" where
  "Join [] sep = []"
| "Join [s] sep = s"
| "Join (s # t # ts) sep = s @ sep @ Join (t # ts) sep"

text \<open>\<open>strings.HasPrefix s prefix\<close> is \<open>len(s) >= len(prefix) && s[:len(prefix)] == prefix\<close>.\<close>

definition HasPrefix :: "string \<Rightarrow> string \<Rightarrow> bool" where
  "HasPrefix s pre = (length pre \<le> length s \<and> take (length pre) s = pre)"

text \<open>
  \<open>strings.Split s sep\<close> for a separator of one byte: the pieces of \<open>s\<close> between the
  occurrences of the separator, at least one piece.
\<close>

fun Split :: "string \<Rightarrow> char \<Rightarrow> string list" where
  "Split [] sep = [[]]"
| "Split (x # xs) sep =
     (if x = sep then [] # Split xs sep
      else case Split xs sep of
             [] \<Rightarrow> [[x]]
           | w # ws \<Rightarrow> (x # w) # ws)"

text \<open>Decimal formatting of an integer, as the verb \<open>%d\<close> and \<open>Fprintln\<close> print it.\<close>

definition digit :: "nat \<Rightarrow> char" where
  "digit n = ''0123456789'' ! (n mod 10)"

function FormatNat :: "nat \<Rightarrow> string" where
  "FormatNat n = (if n < 10 then [digit n] else FormatNat (n div 10) @ [digit n])"
  by pat_completeness auto
termination
  by (relation "measure id") auto

declare FormatNat.simps [simp del]

definition FormatInt :: "int \<Rightarrow> string" where
  "FormatInt i = (if i < 0 then ''-'' @ FormatNat (nat (- i)) else FormatNat (nat i))"

text \<open>
  \<open>fmt.Fprintln\<close> writes its operands in their default formats, a space between any
  two of them and a newline at the end, in one write. The operands the sources print
  are strings and integers. An output stream is the list of the writes made to it.
\<close>

datatype operand = Str string | Num int

fun formatOperand :: "operand \<Rightarrow> string" where
  "formatOperand (Str s) = s"
| "formatOperand (Num i) = FormatInt i"

definition Sprintln :: "operand list \<Rightarrow> string" where
  "Sprintln ops = Join (map formatOperand ops) '' '' @ [CHR 0x0A]"

section \<open>api/kyverno/v1/resource\_spec\_types.go\<close>

text \<open>
  \<open>ResourceSpec\<close> is a struct of five strings (\<open>types.UID\<close> is a string type).
  \<open>TargetSelector\<close> embeds \<open>ResourceSpec\<close> and \<open>TargetResourceSpec\<close> embeds
  \<open>TargetSelector\<close>; the embedding is a record extension. The pointer fields are
  options, \<open>None\<close> being \<open>nil\<close>. The types \<open>ContextEntry\<close>, \<open>metav1.LabelSelector\<close>
  and the dynamic type behind \<open>any\<close> are declared outside the sources at hand and are
  type parameters. \<open>ConditionsWrapper\<close> wraps one value of type \<open>any\<close>, which may
  itself be the nil interface value (\<open>None\<close>).
\<close>

record ResourceSpec =
  APIVersion :: string
  Kind :: string
  Namespace :: string
  Name :: string
  UID :: string

definition GetName :: "'z ResourceSpec_scheme \<Rightarrow> string" where
  "GetName s = Name s"

definition GetNamespace :: "'z ResourceSpec_scheme \<Rightarrow> string" where
  "GetNamespace s = Namespace s"

definition GetKind :: "'z ResourceSpec_scheme \<Rightarrow> string" where
  "GetKind s = Kind s"

definition GetAPIVersion :: "'z ResourceSpec_scheme \<Rightarrow> string" where
  "GetAPIVersion s = APIVersion s"

definition GetUID :: "'z ResourceSpec_scheme \<Rightarrow> string" where
  "GetUID s = UID s"

definition String :: "'z ResourceSpec_scheme \<Rightarrow> string" where
  "String s = Join [APIVersion s, Kind s, Namespace s, Name s] ''/''"

record 'c ConditionsWrapper =
  Conditions :: "'c option"

record 'sel TargetSelector = ResourceSpec +
  Selector :: "'sel option"

record ('sel, 'ctx, 'c) TargetResourceSpec = "'sel TargetSelector" +
  Context :: "'ctx list"
  RawAnyAllConditions :: "'c ConditionsWrapper option"

text \<open>
  Reading a field through a pointer panics when the pointer is nil. The panic is a value
  of the result type, so that a function which could dereference nil shows it.
\<close>

datatype panic = NilPointerDereference | SliceBoundsOutOfRange

definition deref :: "'a option \<Rightarrow> panic + 'a" where
  "deref p = (case p of None \<Rightarrow> Inl NilPointerDereference | Some v \<Rightarrow> Inr v)"

definition GetAnyAllConditions :: "('sel, 'ctx, 'c, 'z) TargetResourceSpec_scheme \<Rightarrow> panic + 'c option" where
  "GetAnyAllConditions r =
     (if RawAnyAllConditions r = None then Inr None
      else case deref (RawAnyAllConditions r) of
             Inl p \<Rightarrow> Inl p
           | Inr w \<Rightarrow> Inr (Conditions w))"

definition GetSelector :: "('sel, 'z) TargetSelector_scheme \<Rightarrow> 'sel option" where
  "GetSelector r = Selector r"

section \<open>cmd/cli/kubectl-kyverno/commands/apply/command.go\<close>

subsection \<open>Data\<close>

text \<open>
  \<open>processor.ResultCounts\<close> is declared outside the sources at hand; the code reads its
  fields \<open>Pass\<close>, \<open>Fail\<close>, \<open>Warn\<close>, \<open>Error\<close> and the specification names the five
  counters pass/fail/warn/error/skip. Go's \<open>int\<close> counters are modelled as \<open>int\<close>: the
  functions below only compare them with zero or add one per policy.
\<close>

record ResultCounts =
  Pass :: int
  Fail :: int
  Warn :: int
  Error :: int
  Skip :: int

text \<open>\<open>var rc processor.ResultCounts\<close>: the zero value of the struct.\<close>

definition zeroResultCounts :: ResultCounts where
  "zeroResultCounts = \<lparr>Pass = 0, Fail = 0, Warn = 0, Error = 0, Skip = 0\<rparr>"

text \<open>
  Modelled from the spec: \<open>ResultCounts.IncrementError\<close> is a method of the processor
  package, which is not among the sources; the specification's result counters
  "increment exactly once per terminal rule status", so \<open>IncrementError n\<close> adds
  \<open>n\<close> to the error counter and leaves the others.
\<close>

definition IncrementError :: "ResultCounts \<Rightarrow> int \<Rightarrow> ResultCounts" where
  "IncrementError rc n = rc\<lparr>Error := Error rc + n\<rparr>"

record SkippedInvalidPolicies =
  skipped :: "string list"
  invalid :: "string list"

text \<open>\<open>var skipInvalidPolicies SkippedInvalidPolicies\<close>: both slices nil.\<close>

definition emptySkippedInvalidPolicies :: SkippedInvalidPolicies where
  "emptySkippedInvalidPolicies = \<lparr>skipped = [], invalid = []\<rparr>"

text \<open>
  \<open>ApplyCommandConfig\<close>. A slice is a list; \<open>Variables\<close> alone is compared with
  \<open>nil\<close>, so it is an option (\<open>None\<close> is the nil slice). The fields \<open>Context\<close> and
  \<open>Namespace\<close> carry the suffix \<open>_cfg\<close> because the record fields of
  \<open>TargetResourceSpec\<close> and \<open>ResourceSpec\<close> have these names already.
  \<open>GeneratedExceptionTTL\<close> is a \<open>time.Duration\<close>, a number of nanoseconds.
\<close>

record ApplyCommandConfig =
  KubeConfig :: string
  Context_cfg :: string
  Namespace_cfg :: string
  MutateLogPath :: string
  Variables :: "string list option"
  ValuesFile :: string
  UserInfoPath :: string
  Cluster :: bool
  PolicyReport :: bool
  Stdin :: bool
  RegistryAccess :: bool
  AuditWarn :: bool
  ResourcePaths :: "string list"
  PolicyPaths :: "string list"
  GitBranch :: string
  warnExitCode :: int
  warnNoPassed :: bool
  Exception :: "string list"
  ContinueOnFail :: bool
  inlineExceptions :: bool
  GenerateExceptions :: bool
  GeneratedExceptionTTL :: int

text \<open>
  Errors. \<open>fmt.Errorf\<close> builds an error from its formatted message (a wrapped error
  contributes its own message at \<open>%w\<close>); \<open>WarnExitCodeError\<close> is the struct with the
  one field \<open>ExitCode\<close>. An \<open>error\<close> result is an option: \<open>None\<close> is the nil error.
\<close>

datatype error = Errorf string | WarnExitCodeError (ExitCode: int)

fun ErrorString :: "error \<Rightarrow> string" where
  "ErrorString (Errorf msg) = msg"
| "ErrorString (WarnExitCodeError code) = ''exit as warnExitCode is '' @ FormatInt code"

subsection \<open>checkArguments\<close>

text \<open>
  The five results are the \<open>*ResultCounts\<close> pointer, the resources, the skipped and
  invalid policies, the engine responses and the error. \<open>PolicyPaths[0]\<close> and
  \<open>ResourcePaths[0]\<close> are read only behind the length tests, as in the source.
\<close>

definition checkArguments ::
  "ApplyCommandConfig \<Rightarrow> ResultCounts option \<times> 'res list \<times> SkippedInvalidPolicies \<times> 'resp list \<times> error option" where
  "checkArguments c =
     (let skipInvalidPolicies = emptySkippedInvalidPolicies in
      if ValuesFile c \<noteq> [] \<and> Variables c \<noteq> None then
        (None, [], skipInvalidPolicies, [],
         Some (Errorf ''pass the values either using set flag or values_file flag''))
      else if length (PolicyPaths c) = 0 then
        (None, [], skipInvalidPolicies, [], Some (Errorf ''require policy''))
      else if (length (PolicyPaths c) > 0 \<and> PolicyPaths c ! 0 = ''-'')
              \<and> length (ResourcePaths c) > 0 \<and> ResourcePaths c ! 0 = ''-'' then
        (None, [], skipInvalidPolicies, [],
         Some (Errorf ''a stdin pipe can be used for either policies or resources, not both''))
      else if length (ResourcePaths c) = 0 \<and> \<not> Cluster c then
        (None, [], skipInvalidPolicies, [], Some (Errorf ''resource file(s) or cluster required''))
      else (None, [], skipInvalidPolicies, [], None))"

subsection \<open>exit\<close>

text \<open>
  The returned error of \<open>exit\<close>. Its two prints go to the standard output and do not
  reach the returned value; they are left out.
\<close>

definition exit :: "ResultCounts \<Rightarrow> int \<Rightarrow> bool \<Rightarrow> error option" where
  "exit rc wExitCode wNoPassed =
     (if Fail rc > 0 then Some (Errorf ''exit as there are policy violations'')
      else if Error rc > 0 then Some (Errorf ''exit as there are policy errors'')
      else if Warn rc > 0 \<and> wExitCode \<noteq> 0 then Some (WarnExitCodeError wExitCode)
      else if Pass rc = 0 \<and> wNoPassed then Some (WarnExitCodeError wExitCode)
      else None)"

subsection \<open>applyPolicytoResource\<close>

text \<open>
  The collaborators of \<open>applyPolicytoResource\<close> that live outside the sources at hand
  are parameters, gathered in one record:
  \<^item> \<open>Validate pol\<close> is the error of \<open>policyvalidation.Validate\<close> (its first result
    is discarded by the caller);
  \<^item> \<open>PolicyGetName\<close> and \<open>ResourceGetName\<close> are the \<open>GetName\<close> methods of a policy
    and of a resource;
  \<open>ApplyPoliciesOnResource\<close> is the method of \<open>processor.PolicyProcessor\<close>. The
  processor is built afresh for every resource from values that do not change during
  the loop (store, variables, exceptions, user info, client, flags), from the valid
  policies, the resource, and the pointer \<open>&rc\<close> to the counters. The model gives it
  the valid policies, the resource and the current counters, and takes back its two
  results (engine responses or an error) and the counters as it leaves them.
  \<open>vars.SetInStore(store)\<close>, which runs before the loops, writes to the store that only
  the processor reads. The log messages, among them the last loop of the function over
  the valid policies, are not modelled.
\<close>

record ('pol, 'res, 'resp) engine =
  Validate :: "'pol \<Rightarrow> error option"
  PolicyGetName :: "'pol \<Rightarrow> string"
  ResourceGetName :: "'res \<Rightarrow> string"
  ApplyPoliciesOnResource ::
    "'pol list \<Rightarrow> 'res \<Rightarrow> ResultCounts \<Rightarrow> (error + 'resp list) \<times> ResultCounts"

definition elementNamePrefix :: string where
  "elementNamePrefix = ''variable '' @ [CHR 0x27] @ ''element.name'' @ [CHR 0x27]"

text \<open>
  The loop that validates the policies. Its state is the counters, the valid policies
  collected so far, and the skipped and invalid policies (reached through a pointer that
  the caller keeps).
\<close>

fun validatePolicies ::
  "('pol, 'res, 'resp) engine \<Rightarrow> 'pol list
   \<Rightarrow> ResultCounts \<times> 'pol list \<times> SkippedInvalidPolicies
   \<Rightarrow> ResultCounts \<times> 'pol list \<times> SkippedInvalidPolicies" where
  "validatePolicies e [] st = st"
| "validatePolicies e (pol # pols) (rc, validPolicies, skipInvalidPolicies) =
     (case Validate e pol of
        Some err \<Rightarrow>
          validatePolicies e pols
            (IncrementError rc 1, validPolicies,
             if HasPrefix (ErrorString err) elementNamePrefix
             then skipInvalidPolicies\<lparr>invalid := invalid skipInvalidPolicies @ [PolicyGetName e pol]\<rparr>
             else skipInvalidPolicies\<lparr>skipped := skipped skipInvalidPolicies @ [PolicyGetName e pol]\<rparr>)
      | None \<Rightarrow> validatePolicies e pols (rc, validPolicies @ [pol], skipInvalidPolicies))"

text \<open>
  The loop over the resources. On an error of the processor it goes on with the next
  resource when \<open>ContinueOnFail\<close> is set, and returns the error with the responses
  collected so far otherwise.
\<close>

fun applyResources ::
  "ApplyCommandConfig \<Rightarrow> ('pol, 'res, 'resp) engine \<Rightarrow> 'pol list \<Rightarrow> 'res list
   \<Rightarrow> ResultCounts \<times> 'resp list \<Rightarrow> ResultCounts \<times> 'resp list \<times> error option" where
  "applyResources c e validPolicies [] (rc, responses) = (rc, responses, None)"
| "applyResources c e validPolicies (resource # resources) (rc, responses) =
     (case ApplyPoliciesOnResource e validPolicies resource rc of
        (Inl err, rc') \<Rightarrow>
          if ContinueOnFail c then applyResources c e validPolicies resources (rc', responses)
          else (rc', responses,
                Some (Errorf (''failed to apply policies on resource '' @ ResourceGetName e resource
                              @ '' ('' @ ErrorString err @ '')'')))
      | (Inr ers, rc') \<Rightarrow> applyResources c e validPolicies resources (rc', responses @ ers))"

text \<open>
  \<open>applyPolicytoResource\<close> returns the counters, the resources it was given, the
  responses and the error; the second component of the model's result is the skipped
  and invalid policies as the call leaves them.
\<close>

definition applyPolicytoResource ::
  "ApplyCommandConfig \<Rightarrow> ('pol, 'res, 'resp) engine \<Rightarrow> 'pol list \<Rightarrow> 'res list
   \<Rightarrow> SkippedInvalidPolicies
   \<Rightarrow> (ResultCounts \<times> 'res list \<times> 'resp list \<times> error option) \<times> SkippedInvalidPolicies" where
  "applyPolicytoResource c e policies resources skipInvalidPolicies =
     (case validatePolicies e policies (zeroResultCounts, [], skipInvalidPolicies) of
        (rc, validPolicies, skipInvalidPolicies') \<Rightarrow>
          (case applyResources c e validPolicies resources (rc, []) of
             (rc', responses, err) \<Rightarrow> ((rc', resources, responses, err), skipInvalidPolicies')))"

text \<open>
  The processor run on every resource in turn, the counters threaded through: the
  evaluation that the resource loop performs when nothing stops it. It is the yardstick
  for the statements about which resources are evaluated.
\<close>

fun evaluateAll ::
  "('pol, 'res, 'resp) engine \<Rightarrow> 'pol list \<Rightarrow> 'res list \<Rightarrow> ResultCounts
   \<Rightarrow> ('res \<times> (error + 'resp list)) list" where
  "evaluateAll e ps [] rc = []"
| "evaluateAll e ps (r # rs) rc =
     (case ApplyPoliciesOnResource e ps r rc of
        (res, rc') \<Rightarrow> (r, res) # evaluateAll e ps rs rc')"

fun responsesOf :: "('res \<times> (error + 'resp list)) list \<Rightarrow> 'resp list" where
  "responsesOf [] = []"
| "responsesOf ((r, Inl err) # xs) = responsesOf xs"
| "responsesOf ((r, Inr ers) # xs) = ers @ responsesOf xs"

text \<open>The error that the resource loop returns for the first failed evaluation of a list.\<close>

fun firstError ::
  "('pol, 'res, 'resp) engine \<Rightarrow> ('res \<times> (error + 'resp list)) list \<Rightarrow> error option" where
  "firstError e [] = None"
| "firstError e ((r, Inl err) # xs) =
     Some (Errorf (''failed to apply policies on resource '' @ ResourceGetName e r
                   @ '' ('' @ ErrorString err @ '')''))"
| "firstError e ((r, Inr ers) # xs) = firstError e xs"

text \<open>
  The two kinds of validation error that the validation loop tells apart: the message
  starts with \<open>variable 'element.name'\<close> (the policy is listed as invalid), or it
  does not (the policy is listed as skipped).
\<close>

definition elementNameError :: "('pol, 'res, 'resp) engine \<Rightarrow> 'pol \<Rightarrow> bool" where
  "elementNameError e p =
     (case Validate e p of
        None \<Rightarrow> False
      | Some err \<Rightarrow> HasPrefix (ErrorString err) elementNamePrefix)"

definition otherError :: "('pol, 'res, 'resp) engine \<Rightarrow> 'pol \<Rightarrow> bool" where
  "otherError e p =
     (case Validate e p of
        None \<Rightarrow> False
      | Some err \<Rightarrow> \<not> HasPrefix (ErrorString err) elementNamePrefix)"

subsection \<open>loadPolicies\<close>

text \<open>
  \<open>policy.Load\<close> returns loader results and an error. The caller reads the policies,
  the validating admission policies and their bindings when the error is nil, and only
  logs the non-fatal errors; the model's \<open>Load\<close> returns the error or these three
  lists. The other collaborators are parameters as well:
  \<open>IsGit\<close> (\<open>source.IsGit\<close>), \<open>urlParse\<close> (\<open>url.Parse\<close>), \<open>urlPath\<close> (the field
  \<open>Path\<close> of the parsed URL), \<open>urlString u p\<close> (\<open>String()\<close> of \<open>u\<close> once its
  \<open>Path\<close> is \<open>p\<close>), \<open>GetGitBranchOrPolicyPaths\<close>, \<open>Clone\<close> (the file system that
  \<open>gitutils.Clone\<close> fills, or its error) and \<open>ListYamls\<close>. The log messages, among them
  the loop over the policies at the end of every iteration, are not modelled.
\<close>

record ('pol, 'vap, 'bind) LoaderResults =
  Policies :: "'pol list"
  VAPs :: "'vap list"
  VAPBindings :: "'bind list"

record ('url, 'fs, 'pol, 'vap, 'bind) sources =
  IsGit :: "string \<Rightarrow> bool"
  urlParse :: "string \<Rightarrow> error + 'url"
  urlPath :: "'url \<Rightarrow> string"
  urlString :: "'url \<Rightarrow> string \<Rightarrow> string"
  GetGitBranchOrPolicyPaths :: "string \<Rightarrow> string \<Rightarrow> string \<Rightarrow> string \<times> string"
  Clone :: "string \<Rightarrow> string \<Rightarrow> error + 'fs"
  ListYamls :: "'fs \<Rightarrow> string \<Rightarrow> error + string list"
  Load :: "'fs option \<Rightarrow> string \<Rightarrow> error + ('pol, 'vap, 'bind) LoaderResults"

text \<open>The loop over the YAML files of a cloned repository: a file that fails to load is passed over.\<close>

fun loadYamls ::
  "('url, 'fs, 'pol, 'vap, 'bind) sources \<Rightarrow> 'fs \<Rightarrow> string list
   \<Rightarrow> 'pol list \<times> 'vap list \<times> 'bind list \<Rightarrow> 'pol list \<times> 'vap list \<times> 'bind list" where
  "loadYamls s fs [] acc = acc"
| "loadYamls s fs (policyYaml # policyYamls) (policies, vaps, vapBindings) =
     (case Load s (Some fs) policyYaml of
        Inl err \<Rightarrow> loadYamls s fs policyYamls (policies, vaps, vapBindings)
      | Inr loaderResults \<Rightarrow>
          loadYamls s fs policyYamls
            (policies @ Policies loaderResults, vaps @ VAPs loaderResults,
             vapBindings @ VAPBindings loaderResults))"

definition invalidURLPath :: "string \<Rightarrow> string" where
  "invalidURLPath p =
     ''invalid URL path '' @ p @
     '' - expected https://<any_git_source_domain>/:owner/:repository/:branch (without --git-branch flag) OR https://<any_git_source_domain>/:owner/:repository/:directory (with --git-branch flag)''"

text \<open>
  The loop over the policy paths. Its state is \<open>c.GitBranch\<close> and the three lists. The
  result is a panic (\<open>gitSourceURL.Path[1:]\<close> on an empty path), or the branch together
  with the error returned or the lists loaded.
\<close>

fun loadPaths ::
  "('url, 'fs, 'pol, 'vap, 'bind) sources \<Rightarrow> string list
   \<Rightarrow> string \<times> 'pol list \<times> 'vap list \<times> 'bind list
   \<Rightarrow> panic + (string \<times> (error + 'pol list \<times> 'vap list \<times> 'bind list))" where
  "loadPaths s [] (gitBranch, policies, vaps, vapBindings) =
     Inr (gitBranch, Inr (policies, vaps, vapBindings))"
| "loadPaths s (path # paths) (gitBranch, policies, vaps, vapBindings) =
     (if IsGit s path then
        (case urlParse s path of
           Inl err \<Rightarrow>
             Inr (gitBranch, Inl (Errorf (''failed to load policies ('' @ ErrorString err @ '')'')))
         | Inr gitSourceURL \<Rightarrow>
             if length (urlPath s gitSourceURL) < 1 then Inl SliceBoundsOutOfRange
             else
               let pathElems = Split (drop 1 (urlPath s gitSourceURL)) (CHR ''/'') in
               if length pathElems \<le> 1 then
                 Inr (gitBranch,
                      Inl (Errorf (''failed to parse URL ('' @ invalidURLPath (urlPath s gitSourceURL) @ '')'')))
               else
                 let repoURL = urlString s gitSourceURL (Join [pathElems ! 0, pathElems ! 1] ''/'') in
                 (case GetGitBranchOrPolicyPaths s gitBranch repoURL path of
                    (gitBranch', gitPathToYamls) \<Rightarrow>
                      (case Clone s repoURL gitBranch' of
                         Inl err \<Rightarrow>
                           Inr (gitBranch',
                                Inl (Errorf (''failed to clone repository ('' @ ErrorString err @ '')'')))
                       | Inr fs \<Rightarrow>
                           (case ListYamls s fs gitPathToYamls of
                              Inl err \<Rightarrow>
                                Inr (gitBranch',
                                     Inl (Errorf (''failed to list YAMLs in repository (''
                                                  @ ErrorString err @ '')'')))
                            | Inr policyYamls \<Rightarrow>
                                (case loadYamls s fs policyYamls (policies, vaps, vapBindings) of
                                   (policies', vaps', vapBindings') \<Rightarrow>
                                     loadPaths s paths (gitBranch', policies', vaps', vapBindings'))))))
      else
        (case Load s None path of
           Inl err \<Rightarrow> loadPaths s paths (gitBranch, policies, vaps, vapBindings)
         | Inr loaderResults \<Rightarrow>
             loadPaths s paths
               (gitBranch, policies @ Policies loaderResults, vaps @ VAPs loaderResults,
                vapBindings @ VAPBindings loaderResults)))"

text \<open>
  \<open>loadPolicies\<close> returns eight values, the first, second and fourth always nil, the
  third the skipped and invalid policies it was given; the model adds the configuration
  with the \<open>GitBranch\<close> the call leaves in it.
\<close>

definition loadPolicies ::
  "('url, 'fs, 'pol, 'vap, 'bind) sources \<Rightarrow> ApplyCommandConfig \<Rightarrow> SkippedInvalidPolicies
   \<Rightarrow> panic + ((ResultCounts option \<times> 'res list \<times> SkippedInvalidPolicies \<times> 'resp list
                 \<times> 'pol list \<times> 'vap list \<times> 'bind list \<times> error option) \<times> ApplyCommandConfig)" where
  "loadPolicies s c skipInvalidPolicies =
     (case loadPaths s (PolicyPaths c) (GitBranch c, [], [], []) of
        Inl p \<Rightarrow> Inl p
      | Inr (gitBranch, Inl err) \<Rightarrow>
          Inr ((None, [], skipInvalidPolicies, [], [], [], [], Some err), c\<lparr>GitBranch := gitBranch\<rparr>)
      | Inr (gitBranch, Inr (policies, vaps, vapBindings)) \<Rightarrow>
          Inr ((None, [], skipInvalidPolicies, [], policies, vaps, vapBindings, None),
               c\<lparr>GitBranch := gitBranch\<rparr>))"

subsection \<open>The command's output\<close>

text \<open>
  The engine API is declared outside the sources at hand. A rule response is the record
  of what its methods \<open>Name\<close>, \<open>RuleType\<close>, \<open>Message\<close> and \<open>Status\<close> return, and an
  engine response the record of what the command reads from it: namespace, kind and name
  of \<open>response.Resource\<close>, \<open>response.Policy().GetName()\<close>,
  \<open>response.PolicyResponse.Rules\<close> and \<open>response.GetValidationFailureAction().Audit()\<close>.
\<close>

text \<open>
  Modelled from the spec: the enumerations \<open>engineapi.RuleStatus\<close> and
  \<open>engineapi.RuleType\<close> are missing from the sources; the specification gives the
  statuses Pass/Fail/Warn/Error/Skip and the rule types Validate/Mutate/Generate.
\<close>

datatype RuleStatus =
  RuleStatusPass | RuleStatusFail | RuleStatusWarn | RuleStatusError | RuleStatusSkip

datatype RuleType = Validation | Mutation | Generation

record RuleResponse =
  ruleName :: string
  ruleType :: RuleType
  ruleMessage :: string
  ruleStatus :: RuleStatus

record EngineResponse =
  ResourceNamespace :: string
  ResourceKind :: string
  ResourceName :: string
  PolicyName :: string
  Rules :: "RuleResponse list"
  ValidationFailureActionAudit :: bool

text \<open>\<open>fmt.Sprintf("%s/%s/%s", namespace, kind, name)\<close>\<close>

definition resPath :: "EngineResponse \<Rightarrow> string" where
  "resPath response =
     ResourceNamespace response @ ''/'' @ ResourceKind response @ ''/'' @ ResourceName response"

text \<open>
  The loop over the rules of one response: it collects the failed rules and writes a
  line for a mutation rule that was skipped or that ended in an error.
\<close>

fun rulesLoop ::
  "EngineResponse \<Rightarrow> RuleResponse list \<Rightarrow> RuleResponse list \<times> string list
   \<Rightarrow> RuleResponse list \<times> string list" where
  "rulesLoop response [] st = st"
| "rulesLoop response (rule # rules) (failedRules, out) =
     rulesLoop response rules
       (if ruleStatus rule = RuleStatusFail then failedRules @ [rule] else failedRules,
        if ruleType rule = Mutation then
          if ruleStatus rule = RuleStatusSkip then
            out @ [Sprintln [Str ([CHR 0x0A] @ ''skipped mutate policy''), Str (PolicyName response),
                             Str ''->'', Str ''resource'', Str (resPath response)]]
          else if ruleStatus rule = RuleStatusError then
            out @ [Sprintln [Str ([CHR 0x0A] @ ''error while applying mutate policy''),
                             Str (PolicyName response), Str ''->'', Str ''resource'',
                             Str (resPath response), Str ([CHR 0x0A] @ ''error: ''),
                             Str (ruleMessage rule)]]
          else out
        else out)"

text \<open>What the loop writes for one rule: nothing, or the line of a skipped or failed mutation.\<close>

definition mutateLines :: "EngineResponse \<Rightarrow> RuleResponse \<Rightarrow> string list" where
  "mutateLines response rule =
     (if ruleType rule = Mutation \<and> ruleStatus rule = RuleStatusSkip then
        [Sprintln [Str ([CHR 0x0A] @ ''skipped mutate policy''), Str (PolicyName response),
                   Str ''->'', Str ''resource'', Str (resPath response)]]
      else if ruleType rule = Mutation \<and> ruleStatus rule = RuleStatusError then
        [Sprintln [Str ([CHR 0x0A] @ ''error while applying mutate policy''),
                   Str (PolicyName response), Str ''->'', Str ''resource'',
                   Str (resPath response), Str ([CHR 0x0A] @ ''error: ''),
                   Str (ruleMessage rule)]]
      else [])"

text \<open>\<open>for i, rule := range failedRules\<close>, from the index \<open>i\<close> on.\<close>

fun printFailedRules :: "nat \<Rightarrow> RuleResponse list \<Rightarrow> string list \<Rightarrow> string list" where
  "printFailedRules i [] out = out"
| "printFailedRules i (rule # rules) out =
     printFailedRules (i + 1) rules
       (out @ [Sprintln [Num (int i + 1), Str ''-'', Str (ruleName rule), Str (ruleMessage rule)]])"

definition printResponse :: "ApplyCommandConfig \<Rightarrow> EngineResponse \<Rightarrow> string list \<Rightarrow> string list" where
  "printResponse c response out =
     (case rulesLoop response (Rules response) ([], out) of
        (failedRules, out1) \<Rightarrow>
          if length failedRules > 0 then
            let auditWarn = (if AuditWarn c \<and> ValidationFailureActionAudit response then True else False);
                out2 = (if auditWarn then
                          out1 @ [Sprintln [Str ''policy'', Str (PolicyName response), Str ''->'',
                                            Str ''resource'', Str (resPath response),
                                            Str ''failed as audit warning:'']]
                        else
                          out1 @ [Sprintln [Str ''policy'', Str (PolicyName response), Str ''->'',
                                            Str ''resource'', Str (resPath response), Str ''failed:'']])
            in printFailedRules 0 failedRules out2 @ [Sprintln [Str []]]
          else out1)"

fun printResponses :: "ApplyCommandConfig \<Rightarrow> EngineResponse list \<Rightarrow> string list \<Rightarrow> string list" where
  "printResponses c [] out = out"
| "printResponses c (response # responses) out = printResponses c responses (printResponse c response out)"

text \<open>
  The printers of the other output modes, \<open>printSkippedAndInvalidPolicies\<close> and
  \<open>printViolations\<close> are not among the sources: each is a parameter that gives the
  writes it makes.
\<close>

record printers =
  printSkippedAndInvalidPolicies :: "SkippedInvalidPolicies \<Rightarrow> string list"
  printReports :: "EngineResponse list \<Rightarrow> bool \<Rightarrow> string list"
  printExceptions :: "EngineResponse list \<Rightarrow> bool \<Rightarrow> int \<Rightarrow> string list"
  printTable :: "bool \<Rightarrow> bool \<Rightarrow> EngineResponse list \<Rightarrow> string list"
  printViolations :: "ResultCounts \<Rightarrow> string list"

text \<open>
  The function \<open>RunE\<close> of \<open>Command\<close>, from the results of \<open>applyCommandHelper\<close> on:
  the counters (not nil when the helper returns no error, as they come from
  \<open>applyPolicytoResource\<close>), the skipped and invalid policies, the responses and the
  error, and the writes \<open>out\<close> that the helper has made. \<open>table\<close> and \<open>detailedResults\<close>
  are the flags local to \<open>Command\<close>. The result is the output and the returned error.
  \<open>color.Init\<close> and the assignment to \<open>cmd.SilenceErrors\<close> do not reach either.
\<close>

definition RunE ::
  "printers \<Rightarrow> ApplyCommandConfig \<Rightarrow> bool \<Rightarrow> bool
   \<Rightarrow> ResultCounts \<Rightarrow> SkippedInvalidPolicies \<Rightarrow> EngineResponse list \<Rightarrow> error option
   \<Rightarrow> string list \<Rightarrow> string list \<times> error option" where
  "RunE pr c table detailedResults rc skipInvalidPolicies responses err out =
     (if err \<noteq> None then (out, err)
      else
        let out1 = out @ printSkippedAndInvalidPolicies pr skipInvalidPolicies;
            out2 = (if PolicyReport c then out1 @ printReports pr responses (AuditWarn c)
                    else if GenerateExceptions c then
                      out1 @ printExceptions pr responses (AuditWarn c) (GeneratedExceptionTTL c)
                    else if table then out1 @ printTable pr detailedResults (AuditWarn c) responses
                    else printResponses c responses out1 @ printViolations pr rc)
        in (out2, exit rc (warnExitCode c) (warnNoPassed c)))"

section \<open>Concrete inputs\<close>

text \<open>The configuration that the flags of \<open>Command\<close> give when none is set (30 days in nanoseconds).\<close>

definition defaultConfig :: ApplyCommandConfig where
  "defaultConfig =
     \<lparr>KubeConfig = [], Context_cfg = [], Namespace_cfg = [], MutateLogPath = [],
      Variables = None, ValuesFile = [], UserInfoPath = [], Cluster = False,
      PolicyReport = False, Stdin = False, RegistryAccess = False, AuditWarn = False,
      ResourcePaths = [], PolicyPaths = [], GitBranch = [], warnExitCode = 0,
      warnNoPassed = False, Exception = [], ContinueOnFail = False, inlineExceptions = False,
      GenerateExceptions = False, GeneratedExceptionTTL = 2592000000000000\<rparr>"

text \<open>
  An engine over numbered policies and resources. Policy 0 fails validation with a message
  about \<open>element.name\<close>, policy 1 with another message, every other policy is valid. The
  processor fails on resource 1 and counts an error; on any other resource it answers with
  one response (policy, resource) for each policy and counts a pass for each.
\<close>

definition exampleValidate :: "nat \<Rightarrow> error option" where
  "exampleValidate p =
     (if p = 0 then Some (Errorf (elementNamePrefix @ '' is not defined''))
      else if p = 1 then Some (Errorf ''rule names must be unique'')
      else None)"

definition examplePolicyName :: "nat \<Rightarrow> string" where
  "examplePolicyName p = ''policy-'' @ FormatNat p"

definition exampleResourceName :: "nat \<Rightarrow> string" where
  "exampleResourceName r = ''resource-'' @ FormatNat r"

definition exampleProcessor ::
  "nat list \<Rightarrow> nat \<Rightarrow> ResultCounts \<Rightarrow> (error + (nat \<times> nat) list) \<times> ResultCounts" where
  "exampleProcessor ps r rc =
     (if r = 1 then (Inl (Errorf ''context entry unavailable''), rc\<lparr>Error := Error rc + 1\<rparr>)
      else (Inr (map (\<lambda>p. (p, r)) ps), rc\<lparr>Pass := Pass rc + int (length ps)\<rparr>))"

definition exampleEngine :: "(nat, nat, nat \<times> nat) engine" where
  "exampleEngine =
     \<lparr>Validate = exampleValidate, PolicyGetName = examplePolicyName,
      ResourceGetName = exampleResourceName, ApplyPoliciesOnResource = exampleProcessor\<rparr>"

text \<open>
  Policy sources in which every path with the prefix \<open>https://\<close> is a git URL on a host
  name of ten characters, and the local file \<open>broken.yaml\<close> does not parse; any other
  file holds one policy, numbered by the length of its path.
\<close>

definition exampleLoad :: "unit option \<Rightarrow> string \<Rightarrow> error + (nat, nat, nat) LoaderResults" where
  "exampleLoad fs path =
     (if path = ''broken.yaml'' then Inl (Errorf ''yaml: did not find expected key'')
      else Inr \<lparr>Policies = [length path], VAPs = [], VAPBindings = []\<rparr>)"

definition exampleSources :: "(string, unit, nat, nat, nat) sources" where
  "exampleSources =
     \<lparr>IsGit = (\<lambda>path. HasPrefix path ''https://''),
      urlParse = (\<lambda>path. Inr path),
      urlPath = (\<lambda>u. drop 18 u),
      urlString = (\<lambda>u path. take 18 u @ ''/'' @ path),
      GetGitBranchOrPolicyPaths = (\<lambda>branch repoURL path. (if branch = [] then ''main'' else branch, ''/'')),
      Clone = (\<lambda>repoURL branch. Inr ()),
      ListYamls = (\<lambda>fs path. Inr [''policy.yaml'', ''broken.yaml'']),
      Load = exampleLoad\<rparr>"

text \<open>
  The response of the policy \<open>require-labels\<close> for the pod \<open>default/Pod/nginx\<close>, with a
  failed validation rule, a skipped and a failed mutation rule and a rule that passed,
  under the validation failure action Audit; and printers that write one line each.
\<close>

definition exampleRules :: "RuleResponse list" where
  "exampleRules =
     [\<lparr>ruleName = ''check-team'', ruleType = Validation,
       ruleMessage = ''label team is required'', ruleStatus = RuleStatusFail\<rparr>,
      \<lparr>ruleName = ''add-owner'', ruleType = Mutation,
       ruleMessage = ''preconditions not met'', ruleStatus = RuleStatusSkip\<rparr>,
      \<lparr>ruleName = ''add-zone'', ruleType = Mutation,
       ruleMessage = ''failed to apply patch'', ruleStatus = RuleStatusError\<rparr>,
      \<lparr>ruleName = ''check-image'', ruleType = Validation,
       ruleMessage = ''image is allowed'', ruleStatus = RuleStatusPass\<rparr>,
      \<lparr>ruleName = ''check-env'', ruleType = Validation,
       ruleMessage = ''label env is required'', ruleStatus = RuleStatusFail\<rparr>]"

definition exampleResponse :: EngineResponse where
  "exampleResponse =
     \<lparr>ResourceNamespace = ''default'', ResourceKind = ''Pod'', ResourceName = ''nginx'',
      PolicyName = ''require-labels'', Rules = exampleRules, ValidationFailureActionAudit = True\<rparr>"

definition examplePrinters :: printers where
  "examplePrinters =
     \<lparr>printSkippedAndInvalidPolicies = (\<lambda>skipInvalidPolicies. []),
      printReports = (\<lambda>responses auditWarn. [Sprintln [Str ''report'']]),
      printExceptions = (\<lambda>responses auditWarn ttl. [Sprintln [Str ''exceptions'']]),
      printTable = (\<lambda>detailedResults auditWarn responses. [Sprintln [Str ''table'']]),
      printViolations = (\<lambda>rc. [Sprintln [Str ''fail:'', Num (Fail rc)]])\<rparr>"

section \<open>Resource specifications\<close>

text \<open>
  C8. \<open>String\<close> joins APIVersion, Kind, Namespace and Name with a slash, in this order;
  the all-empty \<open>ResourceSpec\<close> prints as three slashes; each getter returns its field.
\<close>

theorem C8_String_and_getters:
  "String s = APIVersion s @ ''/'' @ Kind s @ ''/'' @ Namespace s @ ''/'' @ Name s
   \<and> String \<lparr>APIVersion = [], Kind = [], Namespace = [], Name = [], UID = []\<rparr> = ''///''
   \<and> GetName s = Name s \<and> GetNamespace s = Namespace s \<and> GetKind s = Kind s
   \<and> GetAPIVersion s = APIVersion s \<and> GetUID s = UID s"
  by (simp add: String_def GetName_def GetNamespace_def GetKind_def GetAPIVersion_def GetUID_def)

text \<open>
  C9. \<open>GetAnyAllConditions\<close> never panics: with a nil \<open>RawAnyAllConditions\<close> it returns
  nil, otherwise the \<open>Conditions\<close> value of the wrapper.
\<close>

theorem C9_GetAnyAllConditions_total:
  "GetAnyAllConditions r =
     Inr (case RawAnyAllConditions r of None \<Rightarrow> None | Some w \<Rightarrow> Conditions w)"
  by (simp add: GetAnyAllConditions_def deref_def split: option.splits)

section \<open>Argument check and exit status\<close>

text \<open>
  C1 (amended). \<open>exit\<close> returns an error exactly when there is a failure, an error, a
  warning together with a warn exit code other than 0, or no pass together with
  \<open>warnNoPassed\<close>. Failures, then errors, decide the error returned whatever the
  warnings are. A run with warnings, no failure and no error, and warn exit code 0
  returns nil unless nothing passed and \<open>warnNoPassed\<close> is set.
\<close>

theorem C1_exit_error_iff:
  "(exit rc w np \<noteq> None \<longleftrightarrow>
      Fail rc > 0 \<or> Error rc > 0 \<or> (Warn rc > 0 \<and> w \<noteq> 0) \<or> (Pass rc = 0 \<and> np))
   \<and> (Fail rc > 0 \<longrightarrow> exit rc w np = Some (Errorf ''exit as there are policy violations''))
   \<and> (Fail rc \<le> 0 \<and> Error rc > 0 \<longrightarrow>
        exit rc w np = Some (Errorf ''exit as there are policy errors''))
   \<and> (Fail rc \<le> 0 \<and> Error rc \<le> 0 \<and> Warn rc > 0 \<and> w = 0 \<longrightarrow>
        (exit rc w np = None \<longleftrightarrow> \<not> (Pass rc = 0 \<and> np)))"
  by (simp add: exit_def)

theorem C1_exit_error_iff_witness:
  "Fail \<lparr>Pass = 2, Fail = 0, Warn = 1, Error = 0, Skip = 0\<rparr> \<le> 0
   \<and> Warn \<lparr>Pass = 2, Fail = 0, Warn = 1, Error = 0, Skip = 0\<rparr> > 0
   \<and> exit \<lparr>Pass = 2, Fail = 0, Warn = 1, Error = 0, Skip = 0\<rparr> 0 True = None
   \<and> exit \<lparr>Pass = 0, Fail = 3, Warn = 1, Error = 0, Skip = 0\<rparr> 7 False
       = Some (Errorf ''exit as there are policy violations'')
   \<and> exit \<lparr>Pass = 0, Fail = 0, Warn = 1, Error = 1, Skip = 0\<rparr> 7 False
       = Some (Errorf ''exit as there are policy errors'')"
  using C1_exit_error_iff [of "\<lparr>Pass = 2, Fail = 0, Warn = 1, Error = 0, Skip = 0\<rparr>" 0 True]
        C1_exit_error_iff [of "\<lparr>Pass = 0, Fail = 3, Warn = 1, Error = 0, Skip = 0\<rparr>" 7 False]
        C1_exit_error_iff [of "\<lparr>Pass = 0, Fail = 0, Warn = 1, Error = 1, Skip = 0\<rparr>" 7 False]
  by simp

text \<open>
  C1 as stated fails: a run whose only results are warnings, with warn exit code 0 and
  \<open>warnNoPassed\<close> set, does not return nil.
\<close>

theorem C1_warn_only_counterexample:
  "exit \<lparr>Pass = 0, Fail = 0, Warn = 1, Error = 0, Skip = 0\<rparr> 0 True = Some (WarnExitCodeError 0)"
  by (simp add: exit_def)

text \<open>
  C10. With no failure, no error, no triggering warning, no pass and \<open>warnNoPassed\<close>
  set, \<open>exit\<close> returns the \<open>WarnExitCodeError\<close> whose exit code is the warn exit code,
  0 included: the error of the warning case, not one of its own.
\<close>

theorem C10_no_pass_uses_warnExitCode:
  "Fail rc = 0 \<Longrightarrow> Error rc = 0 \<Longrightarrow> Warn rc = 0 \<or> w = 0 \<Longrightarrow> Pass rc = 0 \<Longrightarrow> np
   \<Longrightarrow> exit rc w np = Some (WarnExitCodeError w) \<and> ExitCode (WarnExitCodeError w) = w"
  by (auto simp add: exit_def)

theorem C10_no_pass_uses_warnExitCode_witness:
  "exit \<lparr>Pass = 0, Fail = 0, Warn = 4, Error = 0, Skip = 1\<rparr> 0 True = Some (WarnExitCodeError 0)
   \<and> ExitCode (WarnExitCodeError 0) = 0
   \<and> exit \<lparr>Pass = 0, Fail = 0, Warn = 0, Error = 0, Skip = 0\<rparr> 3 True = Some (WarnExitCodeError 3)"
  using C10_no_pass_uses_warnExitCode [of "\<lparr>Pass = 0, Fail = 0, Warn = 4, Error = 0, Skip = 1\<rparr>" 0 True]
        C10_no_pass_uses_warnExitCode [of "\<lparr>Pass = 0, Fail = 0, Warn = 0, Error = 0, Skip = 0\<rparr>" 3 True]
  by simp

lemma first_element: "(0 < length xs \<and> xs ! 0 = x) = (\<exists>ys. xs = x # ys)"
  by (cases xs) auto

text \<open>
  C4. \<open>checkArguments\<close> returns an error exactly when a values file and set-variables
  are both given, or there is no policy path, or the first policy path and the first
  resource path are both \<open>-\<close>, or there is no resource path and cluster mode is off.
  In every case the other four results are nil or empty.
\<close>

theorem C4_checkArguments_error_iff:
  "(snd (snd (snd (snd (checkArguments c
        :: ResultCounts option \<times> 'res list \<times> SkippedInvalidPolicies \<times> 'resp list \<times> error option))))
      \<noteq> None
     \<longleftrightarrow> (ValuesFile c \<noteq> [] \<and> Variables c \<noteq> None)
          \<or> PolicyPaths c = []
          \<or> ((\<exists>ps. PolicyPaths c = ''-'' # ps) \<and> (\<exists>rs. ResourcePaths c = ''-'' # rs))
          \<or> (ResourcePaths c = [] \<and> \<not> Cluster c))
   \<and> (\<exists>err. (checkArguments c
        :: ResultCounts option \<times> 'res list \<times> SkippedInvalidPolicies \<times> 'resp list \<times> error option)
          = (None, [], emptySkippedInvalidPolicies, [], err))"
  unfolding first_element [symmetric]
  by (auto simp add: checkArguments_def Let_def)

section \<open>Validation of the policies and the loop over the resources\<close>

text \<open>
  The validation loop in closed form: the error counter grows by the number of policies
  that fail validation, the valid policies are kept in order, and the name of each
  failing policy is appended to the invalid or to the skipped list.
\<close>

lemma validatePolicies_eq:
  "validatePolicies e ps (rc, v, sk) =
     (rc\<lparr>Error := Error rc + int (length (filter (\<lambda>p. Validate e p \<noteq> None) ps))\<rparr>,
      v @ filter (\<lambda>p. Validate e p = None) ps,
      \<lparr>skipped = skipped sk @ map (PolicyGetName e) (filter (otherError e) ps),
       invalid = invalid sk @ map (PolicyGetName e) (filter (elementNameError e) ps)\<rparr>)"
proof (induction ps arbitrary: rc v sk)
  case Nil
  then show ?case by simp
next
  case (Cons p ps)
  show ?case
  proof (cases "Validate e p")
    case None
    then show ?thesis
      by (simp add: Cons.IH otherError_def elementNameError_def)
  next
    case (Some err)
    then show ?thesis
      by (simp add: Cons.IH otherError_def elementNameError_def IncrementError_def)
  qed
qed

text \<open>The resource loop when \<open>ContinueOnFail\<close> is set, and when it is not.\<close>

lemma applyResources_continue:
  "ContinueOnFail c \<Longrightarrow>
   fst (snd (applyResources c e vp rs (rc, acc))) = acc @ responsesOf (evaluateAll e vp rs rc)
   \<and> snd (snd (applyResources c e vp rs (rc, acc))) = None"
proof (induction rs arbitrary: rc acc)
  case Nil
  then show ?case by simp
next
  case (Cons r rs)
  obtain res rc' where step: "ApplyPoliciesOnResource e vp r rc = (res, rc')"
    by (cases "ApplyPoliciesOnResource e vp r rc")
  show ?case
  proof (cases res)
    case (Inl err)
    with step Cons show ?thesis by simp
  next
    case (Inr ers)
    with step Cons show ?thesis by simp
  qed
qed

lemma applyResources_stop:
  "\<not> ContinueOnFail c \<Longrightarrow>
   fst (snd (applyResources c e vp rs (rc, acc)))
     = acc @ responsesOf (takeWhile (\<lambda>x. \<not> isl (snd x)) (evaluateAll e vp rs rc))
   \<and> snd (snd (applyResources c e vp rs (rc, acc))) = firstError e (evaluateAll e vp rs rc)"
proof (induction rs arbitrary: rc acc)
  case Nil
  then show ?case by simp
next
  case (Cons r rs)
  obtain res rc' where step: "ApplyPoliciesOnResource e vp r rc = (res, rc')"
    by (cases "ApplyPoliciesOnResource e vp r rc")
  show ?case
  proof (cases res)
    case (Inl err)
    with step Cons.prems show ?thesis by simp
  next
    case (Inr ers)
    with step Cons show ?thesis by simp
  qed
qed

lemma map_fst_evaluateAll: "map fst (evaluateAll e vp rs rc) = rs"
  by (induction rs arbitrary: rc) (auto split: prod.splits)

lemma firstError_None: "\<forall>x \<in> set xs. \<not> isl (snd x) \<Longrightarrow> firstError e xs = None"
  by (induction e xs rule: firstError.induct) auto

lemma applyResources_no_failure:
  assumes "\<forall>x \<in> set (evaluateAll e vp rs rc). \<not> isl (snd x)"
  shows "fst (snd (applyResources c e vp rs (rc, acc))) = acc @ responsesOf (evaluateAll e vp rs rc)
         \<and> snd (snd (applyResources c e vp rs (rc, acc))) = None"
proof (cases "ContinueOnFail c")
  case True
  then show ?thesis by (rule applyResources_continue)
next
  case False
  from assms have "takeWhile (\<lambda>x. \<not> isl (snd x)) (evaluateAll e vp rs rc) = evaluateAll e vp rs rc"
    by (simp add: takeWhile_eq_all_conv)
  with applyResources_stop [OF False, of e vp rs rc acc] firstError_None [OF assms, of e]
  show ?thesis by simp
qed

lemma applyPolicytoResource_eq:
  "applyPolicytoResource c e policies resources skip =
     (case applyResources c e (filter (\<lambda>p. Validate e p = None) policies) resources
             (zeroResultCounts\<lparr>Error := int (length (filter (\<lambda>p. Validate e p \<noteq> None) policies))\<rparr>, []) of
        (rc, responses, err) \<Rightarrow>
          ((rc, resources, responses, err),
           \<lparr>skipped = skipped skip @ map (PolicyGetName e) (filter (otherError e) policies),
            invalid = invalid skip @ map (PolicyGetName e) (filter (elementNameError e) policies)\<rparr>))"
  by (simp add: applyPolicytoResource_def validatePolicies_eq zeroResultCounts_def)

text \<open>Facts about the concrete engine.\<close>

lemma FormatNat_small: "n < 10 \<Longrightarrow> FormatNat n = [digit n]"
  by (simp add: FormatNat.simps)

lemma ex_names [simp]:
  "exampleResourceName (Suc 0) = ''resource-1''" "examplePolicyName 0 = ''policy-0''"
  "examplePolicyName (Suc 0) = ''policy-1''"
  by (simp_all add: exampleResourceName_def examplePolicyName_def FormatNat_small digit_def)

lemma ex_validate [simp]:
  "exampleValidate 0 = Some (Errorf (elementNamePrefix @ '' is not defined''))"
  "exampleValidate (Suc 0) = Some (Errorf ''rule names must be unique'')"
  "exampleValidate 2 = None" "exampleValidate 5 = None"
  by (simp_all add: exampleValidate_def)

lemma ex_prefix [simp]:
  "HasPrefix (elementNamePrefix @ s) elementNamePrefix"
  "\<not> HasPrefix ''rule names must be unique'' elementNamePrefix"
  by (simp_all add: HasPrefix_def elementNamePrefix_def)

text \<open>
  C2 (amended). Let \<open>vp\<close> be the valid policies and \<open>rc0\<close> the counters after the
  validation loop. \<open>evaluateAll\<close> evaluates every resource of the list. With
  \<open>ContinueOnFail\<close> set, \<open>applyPolicytoResource\<close> returns the responses of every resource
  whose evaluation did not fail, and no error. Without it, the responses are those of
  the resources before the first failing one, and the error of that resource is returned.
\<close>

theorem C2_continue_gated:
  assumes "validatePolicies e policies (zeroResultCounts, [], skip) = (rc0, vp, skip0)"
      and "applyPolicytoResource c e policies resources skip = ((rc, rs, responses, err), skip')"
  shows "map fst (evaluateAll e vp resources rc0) = resources
         \<and> (ContinueOnFail c \<longrightarrow>
              responses = responsesOf (evaluateAll e vp resources rc0) \<and> err = None)
         \<and> (\<not> ContinueOnFail c \<longrightarrow>
              responses = responsesOf (takeWhile (\<lambda>x. \<not> isl (snd x)) (evaluateAll e vp resources rc0))
              \<and> err = firstError e (evaluateAll e vp resources rc0))"
proof -
  obtain rc1 resp1 err1 where loop: "applyResources c e vp resources (rc0, []) = (rc1, resp1, err1)"
    by (cases "applyResources c e vp resources (rc0, [])")
  from assms loop have res: "responses = resp1" "err = err1"
    by (simp_all add: applyPolicytoResource_def)
  have "ContinueOnFail c \<Longrightarrow> resp1 = responsesOf (evaluateAll e vp resources rc0) \<and> err1 = None"
    using applyResources_continue [of c e vp resources rc0 "[]"] loop by simp
  moreover have "\<not> ContinueOnFail c \<Longrightarrow>
      resp1 = responsesOf (takeWhile (\<lambda>x. \<not> isl (snd x)) (evaluateAll e vp resources rc0))
      \<and> err1 = firstError e (evaluateAll e vp resources rc0)"
    using applyResources_stop [of c e vp resources rc0 "[]"] loop by simp
  ultimately show ?thesis
    using res by (simp add: map_fst_evaluateAll)
qed

theorem C2_continue_gated_witness:
  "applyPolicytoResource (defaultConfig\<lparr>ContinueOnFail := True\<rparr>) exampleEngine [2, 5] [1, 3, 4]
       emptySkippedInvalidPolicies
     = ((\<lparr>Pass = 4, Fail = 0, Warn = 0, Error = 1, Skip = 0\<rparr>, [1, 3, 4],
         [(2, 3), (5, 3), (2, 4), (5, 4)], None), emptySkippedInvalidPolicies)
   \<and> ContinueOnFail (defaultConfig\<lparr>ContinueOnFail := True\<rparr>)
   \<and> responsesOf (evaluateAll exampleEngine [2, 5] [1, 3, 4] zeroResultCounts)
       = [(2, 3), (5, 3), (2, 4), (5, 4)]
   \<and> applyPolicytoResource defaultConfig exampleEngine [2, 5] [3, 1, 4] emptySkippedInvalidPolicies
     = ((\<lparr>Pass = 2, Fail = 0, Warn = 0, Error = 1, Skip = 0\<rparr>, [3, 1, 4], [(2, 3), (5, 3)],
         Some (Errorf ''failed to apply policies on resource resource-1 (context entry unavailable)'')),
        emptySkippedInvalidPolicies)
   \<and> \<not> ContinueOnFail defaultConfig
   \<and> responsesOf (takeWhile (\<lambda>x. \<not> isl (snd x)) (evaluateAll exampleEngine [2, 5] [3, 1, 4] zeroResultCounts))
       = [(2, 3), (5, 3)]"
proof -
  have v: "validatePolicies exampleEngine [2, 5] (zeroResultCounts, [], emptySkippedInvalidPolicies)
             = (zeroResultCounts, [2, 5], emptySkippedInvalidPolicies)"
    by (simp add: exampleEngine_def)
  have a: "applyPolicytoResource (defaultConfig\<lparr>ContinueOnFail := True\<rparr>) exampleEngine [2, 5] [1, 3, 4]
       emptySkippedInvalidPolicies
     = ((\<lparr>Pass = 4, Fail = 0, Warn = 0, Error = 1, Skip = 0\<rparr>, [1, 3, 4],
         [(2, 3), (5, 3), (2, 4), (5, 4)], None), emptySkippedInvalidPolicies)"
    by (simp add: applyPolicytoResource_def exampleEngine_def defaultConfig_def
        exampleProcessor_def zeroResultCounts_def)
  have b: "applyPolicytoResource defaultConfig exampleEngine [2, 5] [3, 1, 4] emptySkippedInvalidPolicies
     = ((\<lparr>Pass = 2, Fail = 0, Warn = 0, Error = 1, Skip = 0\<rparr>, [3, 1, 4], [(2, 3), (5, 3)],
         Some (Errorf ''failed to apply policies on resource resource-1 (context entry unavailable)'')),
        emptySkippedInvalidPolicies)"
    by (simp add: applyPolicytoResource_def exampleEngine_def defaultConfig_def
        exampleProcessor_def zeroResultCounts_def)
  from C2_continue_gated [OF v a] C2_continue_gated [OF v b] a b show ?thesis
    by (simp add: defaultConfig_def)
qed

text \<open>
  C2 as stated fails: without \<open>ContinueOnFail\<close> (the default), the failure of resource 1
  ends the loop; resource 3, which the processor would answer, is not evaluated and has
  no response in the result.
\<close>

theorem C2_counterexample:
  "applyPolicytoResource defaultConfig exampleEngine [2] [1, 3] emptySkippedInvalidPolicies
     = ((\<lparr>Pass = 0, Fail = 0, Warn = 0, Error = 1, Skip = 0\<rparr>, [1, 3], [],
         Some (Errorf ''failed to apply policies on resource resource-1 (context entry unavailable)'')),
        emptySkippedInvalidPolicies)
   \<and> fst (exampleProcessor [2] 3 \<lparr>Pass = 0, Fail = 0, Warn = 0, Error = 1, Skip = 0\<rparr>) = Inr [(2, 3)]"
  by (simp add: applyPolicytoResource_def exampleEngine_def defaultConfig_def
      exampleProcessor_def zeroResultCounts_def)

section \<open>Loading the policies\<close>

text \<open>A file that does not load leaves the result of the loops as if it were not listed.\<close>

lemma loadYamls_skip:
  "Load s (Some fs) y = Inl err \<Longrightarrow>
   loadYamls s fs (ys1 @ y # ys2) acc = loadYamls s fs (ys1 @ ys2) acc"
proof (induction ys1 arbitrary: acc)
  case Nil
  then show ?case by (cases acc) simp
next
  case (Cons a ys1)
  then show ?case by (cases acc) (simp split: sum.splits)
qed

lemma loadPaths_skip:
  "\<not> IsGit s p \<Longrightarrow> Load s None p = Inl err \<Longrightarrow>
   loadPaths s (ps1 @ p # ps2) st = loadPaths s (ps1 @ ps2) st"
proof (induction ps1 arbitrary: st)
  case Nil
  then show ?case by (cases st) simp
next
  case (Cons a ps1)
  obtain g pols vaps binds where st: "st = (g, pols, vaps, binds)"
    by (cases st)
  show ?case
    unfolding st
    by (simp add: Cons.IH [OF Cons.prems] Let_def
        cong: sum.case_cong prod.case_cong if_cong)
qed

lemma loadPolicies_skip:
  assumes "\<not> IsGit s p" and "Load s None p = Inl err"
  shows "map_sum id fst (loadPolicies s (c\<lparr>PolicyPaths := ps1 @ p # ps2\<rparr>) sk)
         = map_sum id fst (loadPolicies s (c\<lparr>PolicyPaths := ps1 @ ps2\<rparr>) sk)"
  by (simp add: loadPolicies_def loadPaths_skip [OF assms] split: sum.splits prod.splits)

text \<open>
  C3 (amended). A policy that fails validation is left out of the valid policies, its
  name is appended to the invalid or to the skipped list, and it adds one to the error
  counter; the resource loop runs over the whole resource list with exactly the other
  policies, and evaluates every resource with them when \<open>ContinueOnFail\<close> is set or no
  evaluation fails. A local policy file, or a YAML file of a repository, that does not
  load gives the same result as the paths without it.
\<close>

theorem C3_invalid_policy_contained:
  assumes run: "applyPolicytoResource c e policies resources skip = ((rc, rs, responses, err), skip')"
  shows
    "(let vp = filter (\<lambda>p. Validate e p = None) policies;
          rc0 = zeroResultCounts\<lparr>Error := int (length (filter (\<lambda>p. Validate e p \<noteq> None) policies))\<rparr>
      in validatePolicies e policies (zeroResultCounts, [], skip) = (rc0, vp, skip')
         \<and> skipped skip' = skipped skip @ map (PolicyGetName e) (filter (otherError e) policies)
         \<and> invalid skip' = invalid skip @ map (PolicyGetName e) (filter (elementNameError e) policies)
         \<and> applyResources c e vp resources (rc0, []) = (rc, responses, err)
         \<and> (ContinueOnFail c \<or> (\<forall>x \<in> set (evaluateAll e vp resources rc0). \<not> isl (snd x)) \<longrightarrow>
              map fst (evaluateAll e vp resources rc0) = resources
              \<and> responses = responsesOf (evaluateAll e vp resources rc0) \<and> err = None))
     \<and> (\<not> IsGit s p \<and> isl (Load s None p) \<longrightarrow>
          map_sum id fst (loadPolicies s (c\<lparr>PolicyPaths := ps1 @ p # ps2\<rparr>) sk)
          = map_sum id fst (loadPolicies s (c\<lparr>PolicyPaths := ps1 @ ps2\<rparr>) sk))
     \<and> (isl (Load s (Some fs) y) \<longrightarrow>
          loadYamls s fs (ys1 @ y # ys2) acc = loadYamls s fs (ys1 @ ys2) acc)"
proof -
  define vp where "vp = filter (\<lambda>p. Validate e p = None) policies"
  define rc0 where
    "rc0 = zeroResultCounts\<lparr>Error := int (length (filter (\<lambda>p. Validate e p \<noteq> None) policies))\<rparr>"
  obtain rc1 resp1 err1 where loop: "applyResources c e vp resources (rc0, []) = (rc1, resp1, err1)"
    by (cases "applyResources c e vp resources (rc0, [])")
  from run loop have out: "rc = rc1" "responses = resp1" "err = err1"
    and sk: "skip' = \<lparr>skipped = skipped skip @ map (PolicyGetName e) (filter (otherError e) policies),
                      invalid = invalid skip @ map (PolicyGetName e) (filter (elementNameError e) policies)\<rparr>"
    by (simp_all add: applyPolicytoResource_eq vp_def rc0_def)
  have v: "validatePolicies e policies (zeroResultCounts, [], skip) = (rc0, vp, skip')"
    by (simp add: validatePolicies_eq sk vp_def rc0_def zeroResultCounts_def)
  have every: "ContinueOnFail c \<or> (\<forall>x \<in> set (evaluateAll e vp resources rc0). \<not> isl (snd x)) \<longrightarrow>
      map fst (evaluateAll e vp resources rc0) = resources
      \<and> responses = responsesOf (evaluateAll e vp resources rc0) \<and> err = None"
    using applyResources_continue [of c e vp resources rc0 "[]"]
      applyResources_no_failure [of e vp resources rc0 c "[]"] loop out
    by (auto simp add: map_fst_evaluateAll)
  have first: "validatePolicies e policies (zeroResultCounts, [], skip) = (rc0, vp, skip')
         \<and> skipped skip' = skipped skip @ map (PolicyGetName e) (filter (otherError e) policies)
         \<and> invalid skip' = invalid skip @ map (PolicyGetName e) (filter (elementNameError e) policies)
         \<and> applyResources c e vp resources (rc0, []) = (rc, responses, err)"
    using v sk loop out by simp
  have path: "\<not> IsGit s p \<and> isl (Load s None p) \<longrightarrow>
      map_sum id fst (loadPolicies s (c\<lparr>PolicyPaths := ps1 @ p # ps2\<rparr>) sk)
      = map_sum id fst (loadPolicies s (c\<lparr>PolicyPaths := ps1 @ ps2\<rparr>) sk)"
    by (cases "Load s None p") (simp_all add: loadPolicies_skip)
  have yaml: "isl (Load s (Some fs) y) \<longrightarrow>
      loadYamls s fs (ys1 @ y # ys2) acc = loadYamls s fs (ys1 @ ys2) acc"
    by (cases "Load s (Some fs) y") (simp_all add: loadYamls_skip)
  from first every have "validatePolicies e policies (zeroResultCounts, [], skip) = (rc0, vp, skip')
         \<and> skipped skip' = skipped skip @ map (PolicyGetName e) (filter (otherError e) policies)
         \<and> invalid skip' = invalid skip @ map (PolicyGetName e) (filter (elementNameError e) policies)
         \<and> applyResources c e vp resources (rc0, []) = (rc, responses, err)
         \<and> (ContinueOnFail c \<or> (\<forall>x \<in> set (evaluateAll e vp resources rc0). \<not> isl (snd x)) \<longrightarrow>
              map fst (evaluateAll e vp resources rc0) = resources
              \<and> responses = responsesOf (evaluateAll e vp resources rc0) \<and> err = None)"
    by blast
  with path yaml show ?thesis
    unfolding Let_def vp_def [symmetric] rc0_def [symmetric]
    by blast
qed

theorem C3_invalid_policy_contained_witness:
  "applyPolicytoResource defaultConfig exampleEngine [0, 1, 2] [3, 4] emptySkippedInvalidPolicies
     = ((\<lparr>Pass = 2, Fail = 0, Warn = 0, Error = 2, Skip = 0\<rparr>, [3, 4], [(2, 3), (2, 4)], None),
        \<lparr>skipped = [''policy-1''], invalid = [''policy-0'']\<rparr>)
   \<and> validatePolicies exampleEngine [0, 1, 2] (zeroResultCounts, [], emptySkippedInvalidPolicies)
     = (\<lparr>Pass = 0, Fail = 0, Warn = 0, Error = 2, Skip = 0\<rparr>, [2],
        \<lparr>skipped = [''policy-1''], invalid = [''policy-0'']\<rparr>)
   \<and> responsesOf (evaluateAll exampleEngine [2] [3, 4] \<lparr>Pass = 0, Fail = 0, Warn = 0, Error = 2, Skip = 0\<rparr>)
     = [(2, 3), (2, 4)]
   \<and> \<not> IsGit exampleSources ''broken.yaml'' \<and> isl (Load exampleSources None ''broken.yaml'')
   \<and> map_sum id fst
         (loadPolicies exampleSources
            (defaultConfig\<lparr>PolicyPaths := [''a.yaml''] @ ''broken.yaml'' # [''deny.yaml'']\<rparr>)
            emptySkippedInvalidPolicies)
     = Inr (None, [] :: nat list, emptySkippedInvalidPolicies, [] :: (nat \<times> nat) list,
            [6, 9], [], [], None)
   \<and> loadYamls exampleSources () ([''policy.yaml''] @ ''broken.yaml'' # [''extra.yaml'']) ([], [], [])
     = ([11, 10], [], [])"
proof -
  have run: "applyPolicytoResource defaultConfig exampleEngine [0, 1, 2] [3, 4] emptySkippedInvalidPolicies
     = ((\<lparr>Pass = 2, Fail = 0, Warn = 0, Error = 2, Skip = 0\<rparr>, [3, 4], [(2, 3), (2, 4)], None),
        \<lparr>skipped = [''policy-1''], invalid = [''policy-0'']\<rparr>)"
    by (simp add: applyPolicytoResource_def exampleEngine_def defaultConfig_def
        exampleProcessor_def zeroResultCounts_def IncrementError_def emptySkippedInvalidPolicies_def)
  have git: "\<not> IsGit exampleSources ''broken.yaml''"
    by (simp add: exampleSources_def HasPrefix_def)
  have broken: "isl (Load exampleSources None ''broken.yaml'')"
       "isl (Load exampleSources (Some ()) ''broken.yaml'')"
    by (simp_all add: exampleSources_def exampleLoad_def)
  have paths: "map_sum id fst
         (loadPolicies exampleSources (defaultConfig\<lparr>PolicyPaths := [''a.yaml''] @ [''deny.yaml'']\<rparr>)
            emptySkippedInvalidPolicies)
     = Inr (None, [] :: nat list, emptySkippedInvalidPolicies, [] :: (nat \<times> nat) list,
            [6, 9], [], [], None)"
    by (simp add: loadPolicies_def exampleSources_def exampleLoad_def HasPrefix_def defaultConfig_def)
  have yamls: "loadYamls exampleSources () ([''policy.yaml''] @ [''extra.yaml'']) ([], [], [])
     = ([11, 10], [], [])"
    by (simp add: exampleSources_def exampleLoad_def)
  from C3_invalid_policy_contained [OF run, where s = exampleSources and p = "''broken.yaml''"
      and ?ps1.0 = "[''a.yaml'']" and ?ps2.0 = "[''deny.yaml'']" and sk = emptySkippedInvalidPolicies
      and fs = "()" and y = "''broken.yaml''" and ?ys1.0 = "[''policy.yaml'']"
      and ?ys2.0 = "[''extra.yaml'']" and acc = "([], [], [])"]
    run git broken paths yamls
  show ?thesis
    by (simp add: Let_def zeroResultCounts_def emptySkippedInvalidPolicies_def exampleEngine_def
        otherError_def elementNameError_def IncrementError_def exampleProcessor_def
        exampleSources_def exampleLoad_def loadPolicies_def HasPrefix_def defaultConfig_def)
qed

text \<open>
  C3 as stated fails: policies 0 and 1 fail validation and policy 2 is valid, but without
  \<open>ContinueOnFail\<close> the failure of resource 1 ends the loop, and policy 2 is never
  applied to resource 4, which the processor would answer.
\<close>

theorem C3_every_resource_counterexample:
  "applyPolicytoResource defaultConfig exampleEngine [0, 1, 2] [3, 1, 4] emptySkippedInvalidPolicies
     = ((\<lparr>Pass = 1, Fail = 0, Warn = 0, Error = 3, Skip = 0\<rparr>, [3, 1, 4], [(2, 3)],
         Some (Errorf ''failed to apply policies on resource resource-1 (context entry unavailable)'')),
        \<lparr>skipped = [''policy-1''], invalid = [''policy-0'']\<rparr>)
   \<and> exampleValidate 2 = None
   \<and> fst (exampleProcessor [2] 4 \<lparr>Pass = 1, Fail = 0, Warn = 0, Error = 3, Skip = 0\<rparr>) = Inr [(2, 4)]"
  by (simp add: applyPolicytoResource_def exampleEngine_def defaultConfig_def
      exampleProcessor_def zeroResultCounts_def IncrementError_def emptySkippedInvalidPolicies_def)

text \<open>
  C5. The counters that \<open>applyPolicytoResource\<close> returns do not depend on the skipped and
  invalid policies it is given, the only state that one invocation hands to the next:
  they are the counters of the resource loop started from the zero counters plus one
  error for each policy that fails validation. A second invocation on the same
  policies and resources, run after the first, returns the same counters, responses and
  error. With no policy and no resource the counters returned are all zero.
\<close>

theorem C5_counts_start_from_zero:
  "fst (fst (applyPolicytoResource c e policies resources skip1))
     = fst (fst (applyPolicytoResource c e policies resources skip2))
   \<and> fst (fst (applyPolicytoResource c e policies resources skip1))
     = fst (applyResources c e (filter (\<lambda>p. Validate e p = None) policies) resources
              (zeroResultCounts\<lparr>Error := int (length (filter (\<lambda>p. Validate e p \<noteq> None) policies))\<rparr>, []))
   \<and> (case applyPolicytoResource c e policies resources skip1 of
        (first, skip') \<Rightarrow> fst (applyPolicytoResource c e policies resources skip') = first)
   \<and> applyPolicytoResource c e [] [] skip1 = ((zeroResultCounts, [], [], None), skip1)"
  by (simp add: applyPolicytoResource_eq zeroResultCounts_def split: prod.splits)

section \<open>The output of the default mode\<close>

text \<open>
  The loops in closed form: the rule loop collects the rules with status Fail, in order,
  and writes the lines of the mutation rules; the failed rules are numbered from 1.
\<close>

lemma rulesLoop_eq:
  "rulesLoop response rules (failedRules, out)
     = (failedRules @ filter (\<lambda>r. ruleStatus r = RuleStatusFail) rules,
        out @ concat (map (mutateLines response) rules))"
  by (induction rules arbitrary: failedRules out) (simp_all add: mutateLines_def)

lemma printFailedRules_eq:
  "printFailedRules i rules out
     = out @ map (\<lambda>k. Sprintln [Num (int (i + k) + 1), Str ''-'', Str (ruleName (rules ! k)),
                                  Str (ruleMessage (rules ! k))]) [0..<length rules]"
proof (induction rules arbitrary: i out)
  case Nil
  then show ?case by simp
next
  case (Cons rule rules)
  have "[0..<length (rule # rules)] = 0 # map Suc [0..<length rules]"
    by (simp add: upt_conv_Cons map_Suc_upt del: upt_Suc)
  then show ?case
    by (simp add: Cons.IH comp_def del: upt_Suc)
qed

text \<open>
  What one response adds to the output: the lines of its mutation rules and, when a rule
  failed, the header, the numbered failed rules and an empty line.
\<close>

lemma printResponse_eq:
  "printResponse c response out =
     out @ concat (map (mutateLines response) (Rules response))
     @ (if filter (\<lambda>r. ruleStatus r = RuleStatusFail) (Rules response) = [] then []
        else Sprintln [Str ''policy'', Str (PolicyName response), Str ''->'', Str ''resource'',
                       Str (resPath response),
                       Str (if AuditWarn c \<and> ValidationFailureActionAudit response
                            then ''failed as audit warning:'' else ''failed:'')]
             # map (\<lambda>k. Sprintln [Num (int k + 1), Str ''-'',
                           Str (ruleName (filter (\<lambda>r. ruleStatus r = RuleStatusFail) (Rules response) ! k)),
                           Str (ruleMessage (filter (\<lambda>r. ruleStatus r = RuleStatusFail) (Rules response) ! k))])
                   [0..<length (filter (\<lambda>r. ruleStatus r = RuleStatusFail) (Rules response))]
             @ [Sprintln [Str []]])"
  by (simp add: printResponse_def rulesLoop_eq printFailedRules_eq Let_def)

lemma printResponse_append: "printResponse c response out = out @ printResponse c response []"
  by (simp add: printResponse_eq)

lemma printResponses_eq:
  "printResponses c responses out = out @ concat (map (\<lambda>r. printResponse c r []) responses)"
proof (induction responses arbitrary: out)
  case Nil
  then show ?case by simp
next
  case (Cons r responses)
  show ?case
    by (simp add: Cons.IH printResponse_append [of c r out])
qed

lemma RunE_default_contains:
  assumes "\<not> PolicyReport c" and "\<not> GenerateExceptions c" and "\<not> table"
      and "response \<in> set responses"
  shows "set (printResponse c response [])
           \<subseteq> set (fst (RunE pr c table detailedResults rc skipInvalidPolicies responses None out))"
proof -
  from assms(4) have "set (printResponse c response [])
      \<subseteq> set (concat (map (\<lambda>r. printResponse c r []) responses))"
    by auto
  with assms(1-3) show ?thesis
    by (auto simp add: RunE_def Let_def printResponses_eq)
qed

lemma failed_rule_line:
  assumes "rule \<in> set rules" and "ruleStatus rule = RuleStatusFail"
  shows "\<exists>i < length (filter (\<lambda>r. ruleStatus r = RuleStatusFail) rules).
           filter (\<lambda>r. ruleStatus r = RuleStatusFail) rules ! i = rule"
proof -
  from assms have "rule \<in> set (filter (\<lambda>r. ruleStatus r = RuleStatusFail) rules)"
    by simp
  then show ?thesis
    by (simp only: in_set_conv_nth)
qed

text \<open>
  C6. With the audit-warn option and a response whose validation failure action is
  Audit, a rule of the response with status Fail is written under the header
  \<open>failed as audit warning:\<close>, as line \<open>i + 1\<close> of the numbered rules; it is element
  \<open>i\<close> of the failed rules that the loop collects, and its status there is Fail. In the
  default output mode the header is part of the command's output.
\<close>

theorem C6_audit_warning_header:
  assumes "AuditWarn c" and "ValidationFailureActionAudit response"
      and "rule \<in> set (Rules response)" and "ruleStatus rule = RuleStatusFail"
  shows "\<exists>mut lines i.
           printResponse c response out
             = out @ mut
               @ [Sprintln [Str ''policy'', Str (PolicyName response), Str ''->'', Str ''resource'',
                            Str (resPath response), Str ''failed as audit warning:'']]
               @ lines @ [Sprintln [Str []]]
           \<and> i < length lines
           \<and> lines ! i = Sprintln [Num (int i + 1), Str ''-'', Str (ruleName rule), Str (ruleMessage rule)]
           \<and> fst (rulesLoop response (Rules response) ([], out)) ! i = rule
           \<and> length (fst (rulesLoop response (Rules response) ([], out))) = length lines
           \<and> ruleStatus (fst (rulesLoop response (Rules response) ([], out)) ! i) = RuleStatusFail
           \<and> (\<not> PolicyReport c \<and> \<not> GenerateExceptions c \<and> \<not> table \<and> response \<in> set responses \<longrightarrow>
                Sprintln [Str ''policy'', Str (PolicyName response), Str ''->'', Str ''resource'',
                          Str (resPath response), Str ''failed as audit warning:'']
                  \<in> set (fst (RunE pr c table detailedResults rc skipInvalidPolicies responses None out0)))"
proof -
  let ?failed = "filter (\<lambda>r. ruleStatus r = RuleStatusFail) (Rules response)"
  let ?lines = "map (\<lambda>k. Sprintln [Num (int k + 1), Str ''-'', Str (ruleName (?failed ! k)),
                                     Str (ruleMessage (?failed ! k))]) [0..<length ?failed]"
  let ?header = "Sprintln [Str ''policy'', Str (PolicyName response), Str ''->'', Str ''resource'',
                           Str (resPath response), Str ''failed as audit warning:'']"
  from failed_rule_line [OF assms(3,4)] obtain i where i: "i < length ?failed" "?failed ! i = rule"
    by blast
  then have ne: "?failed \<noteq> []"
    by auto
  have eq: "printResponse c response out'
          = out' @ concat (map (mutateLines response) (Rules response))
            @ [?header] @ ?lines @ [Sprintln [Str []]]" for out'
    using assms(1,2) ne by (simp add: printResponse_eq)
  have "i < length ?lines" using i by simp
  moreover have "?lines ! i = Sprintln [Num (int i + 1), Str ''-'', Str (ruleName rule), Str (ruleMessage rule)]"
    using i by simp
  moreover have "fst (rulesLoop response (Rules response) ([], out)) ! i = rule"
    using i by (simp add: rulesLoop_eq)
  moreover have "length (fst (rulesLoop response (Rules response) ([], out))) = length ?lines"
    by (simp add: rulesLoop_eq)
  moreover have "ruleStatus (fst (rulesLoop response (Rules response) ([], out)) ! i) = RuleStatusFail"
    using i assms(4) by (simp add: rulesLoop_eq)
  moreover have "\<not> PolicyReport c \<and> \<not> GenerateExceptions c \<and> \<not> table \<and> response \<in> set responses \<longrightarrow>
      ?header \<in> set (fst (RunE pr c table detailedResults rc skipInvalidPolicies responses None out0))"
  proof
    assume mode: "\<not> PolicyReport c \<and> \<not> GenerateExceptions c \<and> \<not> table \<and> response \<in> set responses"
    have "?header \<in> set (printResponse c response [])"
      by (simp add: eq [of "[]"])
    with mode RunE_default_contains [of c table response responses pr detailedResults rc
        skipInvalidPolicies out0]
    show "?header \<in> set (fst (RunE pr c table detailedResults rc skipInvalidPolicies responses None out0))"
      by blast
  qed
  ultimately show ?thesis
    using eq [of out] by blast
qed

lemmas print_eval = printResponse_def exampleResponse_def exampleRules_def defaultConfig_def
  Sprintln_def resPath_def FormatInt_def FormatNat.simps digit_def Let_def

theorem C6_audit_warning_header_witness:
  "printResponse (defaultConfig\<lparr>AuditWarn := True\<rparr>) exampleResponse []
     = [[CHR 0x0A] @ ''skipped mutate policy require-labels -> resource default/Pod/nginx'' @ [CHR 0x0A],
        [CHR 0x0A] @ ''error while applying mutate policy require-labels -> resource default/Pod/nginx ''
          @ [CHR 0x0A] @ ''error:  failed to apply patch'' @ [CHR 0x0A],
        ''policy require-labels -> resource default/Pod/nginx failed as audit warning:'' @ [CHR 0x0A],
        ''1 - check-team label team is required'' @ [CHR 0x0A],
        ''2 - check-env label env is required'' @ [CHR 0x0A],
        [CHR 0x0A]]
   \<and> fst (rulesLoop exampleResponse (Rules exampleResponse) ([], [])) = [exampleRules ! 0, exampleRules ! 4]
   \<and> ruleStatus (exampleRules ! 4) = RuleStatusFail"
proof -
  have a: "AuditWarn (defaultConfig\<lparr>AuditWarn := True\<rparr>)"
    by simp
  have b: "ValidationFailureActionAudit exampleResponse"
    by (simp add: exampleResponse_def)
  have c: "exampleRules ! 4 \<in> set (Rules exampleResponse)"
    by (simp add: exampleResponse_def exampleRules_def)
  have d: "ruleStatus (exampleRules ! 4) = RuleStatusFail"
    by (simp add: exampleRules_def)
  from C6_audit_warning_header [OF a b c d, of "[]"] d show ?thesis
    by (simp add: print_eval)
qed

text \<open>
  C7. In the default output mode, once the helper has returned without error, the
  output holds for every response the lines of its mutation rules and then the block of
  its failed rules. A rule with status Fail stands in the block as the line
  \<open>i + 1 - name message\<close>, under the header that names the policy and the resource path
  namespace/kind/name; a mutation rule with status Error is written with its message,
  and a mutation rule with status Skip as skipped, each with the policy and the path.
\<close>

theorem C7_default_output:
  assumes "\<not> PolicyReport c" and "\<not> GenerateExceptions c" and "\<not> table"
      and "response \<in> set responses" and "rule \<in> set (Rules response)"
  shows "\<exists>pre mut block post.
           fst (RunE pr c table detailedResults rc skipInvalidPolicies responses None out)
             = pre @ mut @ block @ post
           \<and> resPath response
               = ResourceNamespace response @ ''/'' @ ResourceKind response @ ''/'' @ ResourceName response
           \<and> (ruleStatus rule = RuleStatusFail \<longrightarrow>
                (\<exists>lines i.
                   block = Sprintln [Str ''policy'', Str (PolicyName response), Str ''->'', Str ''resource'',
                                     Str (resPath response),
                                     Str (if AuditWarn c \<and> ValidationFailureActionAudit response
                                          then ''failed as audit warning:'' else ''failed:'')]
                           # lines @ [Sprintln [Str []]]
                   \<and> i < length lines
                   \<and> lines ! i = Sprintln [Num (int i + 1), Str ''-'', Str (ruleName rule),
                                            Str (ruleMessage rule)]))
           \<and> (ruleType rule = Mutation \<and> ruleStatus rule = RuleStatusError \<longrightarrow>
                Sprintln [Str ([CHR 0x0A] @ ''error while applying mutate policy''),
                          Str (PolicyName response), Str ''->'', Str ''resource'',
                          Str (resPath response), Str ([CHR 0x0A] @ ''error: ''),
                          Str (ruleMessage rule)] \<in> set mut)
           \<and> (ruleType rule = Mutation \<and> ruleStatus rule = RuleStatusSkip \<longrightarrow>
                Sprintln [Str ([CHR 0x0A] @ ''skipped mutate policy''), Str (PolicyName response),
                          Str ''->'', Str ''resource'', Str (resPath response)] \<in> set mut)"
proof -
  let ?failed = "filter (\<lambda>r. ruleStatus r = RuleStatusFail) (Rules response)"
  let ?lines = "map (\<lambda>k. Sprintln [Num (int k + 1), Str ''-'', Str (ruleName (?failed ! k)),
                                     Str (ruleMessage (?failed ! k))]) [0..<length ?failed]"
  let ?header = "Sprintln [Str ''policy'', Str (PolicyName response), Str ''->'', Str ''resource'',
                           Str (resPath response),
                           Str (if AuditWarn c \<and> ValidationFailureActionAudit response
                                then ''failed as audit warning:'' else ''failed:'')]"
  let ?mut = "concat (map (mutateLines response) (Rules response))"
  let ?block = "if ?failed = [] then [] else ?header # ?lines @ [Sprintln [Str []]]"
  let ?seg = "\<lambda>r. printResponse c r []"
  from assms(4) obtain xs ys where split: "responses = xs @ response # ys"
    by (auto simp add: in_set_conv_decomp)
  let ?pre = "out @ printSkippedAndInvalidPolicies pr skipInvalidPolicies @ concat (map ?seg xs)"
  let ?post = "concat (map ?seg ys) @ printViolations pr rc"
  have seg: "printResponse c response [] = ?mut @ ?block"
    by (simp add: printResponse_eq)
  have whole: "fst (RunE pr c table detailedResults rc skipInvalidPolicies responses None out)
                 = ?pre @ ?mut @ ?block @ ?post"
    using assms(1-3) by (simp add: RunE_def Let_def printResponses_eq split seg)
  have failed: "ruleStatus rule = RuleStatusFail \<longrightarrow>
      (\<exists>lines i. ?block = ?header # lines @ [Sprintln [Str []]]
          \<and> i < length lines
          \<and> lines ! i = Sprintln [Num (int i + 1), Str ''-'', Str (ruleName rule), Str (ruleMessage rule)])"
  proof
    assume st: "ruleStatus rule = RuleStatusFail"
    from failed_rule_line [OF assms(5) st] obtain i where i: "i < length ?failed" "?failed ! i = rule"
      by blast
    then have ne: "?failed \<noteq> []" by auto
    have "?block = ?header # ?lines @ [Sprintln [Str []]]" using ne by simp
    moreover have "i < length ?lines" using i by simp
    moreover have "?lines ! i = Sprintln [Num (int i + 1), Str ''-'', Str (ruleName rule), Str (ruleMessage rule)]"
      using i by simp
    ultimately show "\<exists>lines i. ?block = ?header # lines @ [Sprintln [Str []]]
          \<and> i < length lines
          \<and> lines ! i = Sprintln [Num (int i + 1), Str ''-'', Str (ruleName rule), Str (ruleMessage rule)]"
      by blast
  qed
  have err: "ruleType rule = Mutation \<and> ruleStatus rule = RuleStatusError \<longrightarrow>
      Sprintln [Str ([CHR 0x0A] @ ''error while applying mutate policy''),
                Str (PolicyName response), Str ''->'', Str ''resource'',
                Str (resPath response), Str ([CHR 0x0A] @ ''error: ''),
                Str (ruleMessage rule)] \<in> set ?mut"
    using assms(5) by (auto simp add: mutateLines_def intro!: bexI [of _ rule])
  have skp: "ruleType rule = Mutation \<and> ruleStatus rule = RuleStatusSkip \<longrightarrow>
      Sprintln [Str ([CHR 0x0A] @ ''skipped mutate policy''), Str (PolicyName response),
                Str ''->'', Str ''resource'', Str (resPath response)] \<in> set ?mut"
    using assms(5) by (auto simp add: mutateLines_def intro!: bexI [of _ rule])
  have path: "resPath response
               = ResourceNamespace response @ ''/'' @ ResourceKind response @ ''/'' @ ResourceName response"
    by (simp add: resPath_def)
  from whole path failed err skp show ?thesis
    by blast
qed

theorem C7_default_output_witness:
  "fst (RunE examplePrinters defaultConfig False False
          \<lparr>Pass = 1, Fail = 2, Warn = 0, Error = 1, Skip = 1\<rparr> emptySkippedInvalidPolicies
          [exampleResponse] None [])
     = [[CHR 0x0A] @ ''skipped mutate policy require-labels -> resource default/Pod/nginx'' @ [CHR 0x0A],
        [CHR 0x0A] @ ''error while applying mutate policy require-labels -> resource default/Pod/nginx ''
          @ [CHR 0x0A] @ ''error:  failed to apply patch'' @ [CHR 0x0A],
        ''policy require-labels -> resource default/Pod/nginx failed:'' @ [CHR 0x0A],
        ''1 - check-team label team is required'' @ [CHR 0x0A],
        ''2 - check-env label env is required'' @ [CHR 0x0A],
        [CHR 0x0A],
        ''fail: 2'' @ [CHR 0x0A]]
   \<and> exampleResponse \<in> set [exampleResponse]
   \<and> exampleRules ! 2 \<in> set (Rules exampleResponse)
   \<and> ruleType (exampleRules ! 2) = Mutation \<and> ruleStatus (exampleRules ! 2) = RuleStatusError"
proof -
  have a: "\<not> PolicyReport defaultConfig" "\<not> GenerateExceptions defaultConfig" "\<not> False"
    by (simp_all add: defaultConfig_def)
  have b: "exampleResponse \<in> set [exampleResponse]"
    by simp
  have c: "exampleRules ! 2 \<in> set (Rules exampleResponse)"
    by (simp add: exampleResponse_def exampleRules_def)
  from C7_default_output [OF a b c, of examplePrinters False
      "\<lparr>Pass = 1, Fail = 2, Warn = 0, Error = 1, Skip = 1\<rparr>" emptySkippedInvalidPolicies "[]"] c
  show ?thesis
    by (simp add: RunE_def examplePrinters_def print_eval)
qed

end
